theory Spec2Isabelle
  imports Main "HOL-Library.Word"
begin

section \<open>Content identifiers\<close>

text \<open>
  A CID of the go-cid version that \<^verbatim>\<open>types/sorted_cid_set.go\<close> imports is a pointer to a
  struct of three fields. \<^verbatim>\<open>Prefix()\<close> reports \<open>version\<close> and \<open>codec\<close> (both uint64) and
  \<^verbatim>\<open>Hash()\<close> the multihash bytes. The sets below hold non-nil pointers only.
\<close>

type_synonym byte = "8 word"

record Cid =
  version :: "64 word"
  codec :: "64 word"
  hash :: "byte list"

text \<open>\<^verbatim>\<open>(*Cid).Equals\<close>: codec, version and hash bytes agree.\<close>

definition Cid_Equals :: "Cid \<Rightarrow> Cid \<Rightarrow> bool" where
  "Cid_Equals c o' = (codec c = codec o' \<and> version c = version o' \<and> hash c = hash o')"

text \<open>
  \<^verbatim>\<open>bytes.Compare\<close> of the Go standard library: the lexicographic comparison of two byte
  slices, \<open>-1\<close>, \<open>0\<close> or \<open>1\<close>; bytes compare unsigned.
\<close>

fun bytes_Compare :: "byte list \<Rightarrow> byte list \<Rightarrow> int" where
  "bytes_Compare [] [] = 0"
| "bytes_Compare [] (y # ys) = - 1"
| "bytes_Compare (x # xs) [] = 1"
| "bytes_Compare (x # xs) (y # ys) =
     (if x < y then - 1 else if y < x then 1 else bytes_Compare xs ys)"

text \<open>\<^verbatim>\<open>cidLess\<close>, as written in the source: a disjunction of three comparisons.\<close>

definition cidLess :: "Cid \<Rightarrow> Cid \<Rightarrow> bool" where
  "cidLess c1 c2 =
     (version c1 < version c2 \<or> codec c1 < codec c2 \<or> bytes_Compare (hash c1) (hash c2) < 0)"

text \<open>
  The order the specification names: lexicographic on the triple (version, codec,
  hash bytes). This definition follows the specification's words, not the source; it is
  what \<open>cidLess\<close> is compared with.
\<close>

definition cid_lex_less :: "Cid \<Rightarrow> Cid \<Rightarrow> bool" where
  "cid_lex_less c1 c2 =
     (version c1 < version c2 \<or>
      (version c1 = version c2 \<and>
        (codec c1 < codec c2 \<or>
         (codec c1 = codec c2 \<and> bytes_Compare (hash c1) (hash c2) < 0))))"

section \<open>The sorted CID set\<close>

text \<open>
  \<^verbatim>\<open>sort.Search(n, f)\<close> of the Go standard library: a binary search over \<open>[0, n)\<close> that
  keeps \<open>f (i - 1) = False\<close> and \<open>f j = True\<close> (with \<open>f (-1)\<close> read as false and \<open>f n\<close>
  as true) and returns \<open>i\<close> once \<open>i = j\<close>.
\<close>

function sort_Search_loop :: "(nat \<Rightarrow> bool) \<Rightarrow> nat \<Rightarrow> nat \<Rightarrow> nat" where
  "sort_Search_loop f i j =
     (if i < j then
        (let h = (i + j) div 2 in
         if \<not> f h then sort_Search_loop f (h + 1) j else sort_Search_loop f i h)
      else i)"
  by pat_completeness auto
termination
  by (relation "measure (\<lambda>(f, i, j). j - i)") auto

declare sort_Search_loop.simps [simp del]

definition sort_Search :: "nat \<Rightarrow> (nat \<Rightarrow> bool) \<Rightarrow> nat" where
  "sort_Search n f = sort_Search_loop f 0 n"

text \<open>
  The struct \<^verbatim>\<open>SortedCidSet\<close> has the single field \<^verbatim>\<open>s []*cid.Cid\<close>; a set is modelled
  by that slice.
\<close>

type_synonym SortedCidSet = "Cid list"

definition search :: "SortedCidSet \<Rightarrow> Cid \<Rightarrow> nat" where
  "search s id' = sort_Search (length s) (\<lambda>i. \<not> cidLess (s ! i) id')"

text \<open>
  \<^verbatim>\<open>copy(xs[d:], xs[sr:])\<close> inside one backing array: Go copies
  \<open>min (len xs - d) (len xs - sr)\<close> elements as if through a temporary buffer.
\<close>

definition copy_slice :: "'a list \<Rightarrow> nat \<Rightarrow> nat \<Rightarrow> 'a list" where
  "copy_slice xs d sr =
     (let n = min (length xs - d) (length xs - sr)
      in take d xs @ take n (drop sr xs) @ drop (d + n) xs)"

text \<open>
  \<^verbatim>\<open>Add\<close> returns the updated set and its boolean result. The slot that
  \<^verbatim>\<open>append(s.s, nil)\<close> adds is overwritten before it is read (by the copy when
  \<open>idx < len\<close>, by the assignment when \<open>idx = len\<close>); the model fills it with \<open>id'\<close>.
\<close>

definition Add :: "SortedCidSet \<Rightarrow> Cid \<Rightarrow> SortedCidSet \<times> bool" where
  "Add s id' =
     (let idx = search s id' in
      if idx < length s \<and> Cid_Equals (s ! idx) id' then (s, False)
      else
        (let s1 = s @ [id'];
             s2 = copy_slice s1 (idx + 1) idx;
             s3 = s2[idx := id']
         in (s3, True)))"

fun NewSortedCidSet_loop :: "SortedCidSet \<Rightarrow> Cid list \<Rightarrow> SortedCidSet" where
  "NewSortedCidSet_loop res [] = res"
| "NewSortedCidSet_loop res (id' # ids) = NewSortedCidSet_loop (fst (Add res id')) ids"

definition NewSortedCidSet :: "Cid list \<Rightarrow> SortedCidSet" where
  "NewSortedCidSet ids = NewSortedCidSet_loop [] ids"

definition Has :: "SortedCidSet \<Rightarrow> Cid \<Rightarrow> bool" where
  "Has s id' = (let idx = search s id' in idx < length s \<and> Cid_Equals (s ! idx) id')"

definition Len :: "SortedCidSet \<Rightarrow> nat" where
  "Len s = length s"

definition Empty :: "SortedCidSet \<Rightarrow> bool" where
  "Empty s = (Len s = 0)"

definition Remove :: "SortedCidSet \<Rightarrow> Cid \<Rightarrow> SortedCidSet \<times> bool" where
  "Remove s id' =
     (let idx = search s id' in
      if idx < length s \<and> Cid_Equals (s ! idx) id'
      then (take (length s - 1) (copy_slice s idx (idx + 1)), True)
      else (s, False))"

definition Clear :: "SortedCidSet \<Rightarrow> SortedCidSet" where
  "Clear s = take 0 s"

subsection \<open>The iterator\<close>

record sortedCidSetIterator =
  it_s :: "Cid list"
  it_i :: nat

definition Iter :: "SortedCidSet \<Rightarrow> sortedCidSetIterator" where
  "Iter s = \<lparr>it_s = s, it_i = 0\<rparr>"

definition Complete :: "sortedCidSetIterator \<Rightarrow> bool" where
  "Complete si = (it_i si \<ge> length (it_s si))"

text \<open>
  \<^verbatim>\<open>Next\<close> and \<^verbatim>\<open>Value\<close> panic when the index is beyond the length: the outer \<open>None\<close>.
  \<^verbatim>\<open>Value\<close> returns nil at the end of the slice: \<open>Some None\<close>.
\<close>

definition Next :: "sortedCidSetIterator \<Rightarrow> (sortedCidSetIterator \<times> bool) option" where
  "Next si =
     (if it_i si < length (it_s si)
      then Some (si\<lparr>it_i := it_i si + 1\<rparr>, it_i si + 1 < length (it_s si))
      else if it_i si = length (it_s si) then Some (si, False)
      else None)"

definition Value :: "sortedCidSetIterator \<Rightarrow> Cid option option" where
  "Value si =
     (if it_i si < length (it_s si) then Some (Some (it_s si ! it_i si))
      else if it_i si = length (it_s si) then Some None
      else None)"

text \<open>
  \<^verbatim>\<open>Equals\<close>: the loop counts \<open>i\<close> up to \<open>s.Len()\<close> and compares \<open>i1.Value()\<close> with
  \<open>i2.Value()\<close> each time; neither iterator is advanced in the loop body. A nil on either
  side of \<^verbatim>\<open>Equals\<close> is a nil dereference: the result \<open>None\<close>.
\<close>

function Equals_loop ::
  "sortedCidSetIterator \<Rightarrow> sortedCidSetIterator \<Rightarrow> nat \<Rightarrow> nat \<Rightarrow> bool option" where
  "Equals_loop i1 i2 n i =
     (if i < n then
        (case (Value i1, Value i2) of
           (Some (Some c1), Some (Some c2)) \<Rightarrow>
             if \<not> Cid_Equals c1 c2 then Some False else Equals_loop i1 i2 n (i + 1)
         | _ \<Rightarrow> None)
      else Some True)"
  by pat_completeness auto
termination
  by (relation "measure (\<lambda>(i1, i2, n, i). n - i)") auto

declare Equals_loop.simps [simp del]

definition Equals :: "SortedCidSet \<Rightarrow> SortedCidSet \<Rightarrow> bool option" where
  "Equals s s2 =
     (if Len s \<noteq> Len s2 then Some False
      else Equals_loop (Iter s) (Iter s2) (Len s) 0)"

text \<open>
  \<^verbatim>\<open>ToSlice\<close> walks the iterator from the start to \<^verbatim>\<open>Complete\<close> and fills the result
  from left to right. Inside the loop the iterator is not complete, so \<^verbatim>\<open>Value\<close> is an
  element and \<^verbatim>\<open>Next\<close> does not panic; the other branches are never taken.
\<close>

function ToSlice_loop :: "sortedCidSetIterator \<Rightarrow> Cid list \<Rightarrow> Cid list option" where
  "ToSlice_loop it out =
     (if \<not> Complete it then
        (case Value it of
           Some (Some c) \<Rightarrow>
             (case Next it of
                Some (it', _) \<Rightarrow> ToSlice_loop it' (out @ [c])
              | None \<Rightarrow> None)
         | _ \<Rightarrow> None)
      else Some out)"
  by pat_completeness auto
termination
  by (relation "measure (\<lambda>(it, out). length (it_s it) - it_i it)")
     (auto simp: Complete_def Next_def split: if_splits)

declare ToSlice_loop.simps [simp del]

definition ToSlice :: "SortedCidSet \<Rightarrow> Cid list option" where
  "ToSlice s = ToSlice_loop (Iter s) []"

subsection \<open>Serialization\<close>

datatype set_error =
  InvalidSerialization Cid Cid
| CidsNotSorted
| JSONError string

text \<open>
  The loop of both decoders: \<open>i\<close> runs while \<open>i < len - 1\<close> (a signed comparison, so an
  empty slice is never indexed) and stops at the first adjacent pair that \<open>cidLess\<close> does
  not order.
\<close>

function unsorted_pair :: "Cid list \<Rightarrow> nat \<Rightarrow> (Cid \<times> Cid) option" where
  "unsorted_pair s i =
     (if int i < int (length s) - 1 then
        (if \<not> cidLess (s ! i) (s ! (i + 1)) then Some (s ! i, s ! (i + 1))
         else unsorted_pair s (i + 1))
      else None)"
  by pat_completeness auto
termination
  by (relation "measure (\<lambda>(s, i). length s - i)") auto

declare unsorted_pair.simps [simp del]

definition TransformMarshal :: "SortedCidSet \<Rightarrow> set_error + Cid list" where
  "TransformMarshal s = Inr s"

definition TransformUnmarshal :: "Cid list \<Rightarrow> set_error + SortedCidSet" where
  "TransformUnmarshal s =
     (case unsorted_pair s 0 of
        Some (a, b) \<Rightarrow> Inl (InvalidSerialization a b)
      | None \<Rightarrow> Inr s)"

text \<open>
  \<^verbatim>\<open>MarshalJSON\<close> and \<^verbatim>\<open>UnmarshalJSON\<close> go through \<^verbatim>\<open>encoding/json\<close>, taken as the
  parameters \<open>json_Marshal\<close> and \<open>json_Unmarshal\<close>. \<^verbatim>\<open>UnmarshalJSON\<close> returns the error
  (if any) and the receiver, which is assigned only on success.
\<close>

definition MarshalJSON :: "(Cid list \<Rightarrow> set_error + byte list) \<Rightarrow> SortedCidSet \<Rightarrow> set_error + byte list" where
  "MarshalJSON json_Marshal s = json_Marshal s"

definition UnmarshalJSON ::
  "(byte list \<Rightarrow> set_error + Cid list) \<Rightarrow> SortedCidSet \<Rightarrow> byte list \<Rightarrow> set_error option \<times> SortedCidSet" where
  "UnmarshalJSON json_Unmarshal s b =
     (case json_Unmarshal b of
        Inl err \<Rightarrow> (Some err, s)
      | Inr ts \<Rightarrow>
          (case unsorted_pair ts 0 of
             Some _ \<Rightarrow> (Some CidsNotSorted, s)
           | None \<Rightarrow> (None, ts)))"

section \<open>The chain state facade\<close>

text \<open>
  \<^verbatim>\<open>ChainStateReadWriter\<close> (package \<^verbatim>\<open>cst\<close>) uses the later go-cid, whose \<^verbatim>\<open>Cid\<close> is a
  string of bytes, undefined when empty.
\<close>

type_synonym ObjCid = "byte list"

definition Cid_Defined :: "ObjCid \<Rightarrow> bool" where
  "Cid_Defined c = (c \<noteq> [])"

type_synonym TipSetKey = "ObjCid list"

text \<open>\<^verbatim>\<open>block.UndefTipSet.Key()\<close>: the key of the tipset of no blocks.\<close>

definition UndefTipSetKey :: TipSetKey where
  "UndefTipSetKey = []"

record TipSet =
  ts_key :: TipSetKey
  ts_height :: nat

subsection \<open>Addresses (go-address)\<close>

datatype Protocol = ID | SECP256K1 | ActorProtocol | BLS | Unknown

datatype Address =
  Undef
| IDAddr "64 word"
| SECP256K1Addr "byte list"
| ActorAddr "byte list"
| BLSAddr "byte list"

fun Protocol_of :: "Address \<Rightarrow> Protocol" where
  "Protocol_of Undef = Unknown"
| "Protocol_of (IDAddr _) = ID"
| "Protocol_of (SECP256K1Addr _) = SECP256K1"
| "Protocol_of (ActorAddr _) = ActorProtocol"
| "Protocol_of (BLSAddr _) = BLS"

text \<open>
  \<^verbatim>\<open>builtin.InitActorAddr\<close> and \<^verbatim>\<open>builtin.MethodSend\<close> of specs-actors: the init actor
  lives at ID address 1, and method number 0 is the plain value transfer.
\<close>

definition InitActorAddr :: Address where
  "InitActorAddr = IDAddr 1"

type_synonym MethodNum = "64 word"

definition MethodSend :: MethodNum where
  "MethodSend = 0"

subsection \<open>Errors\<close>

datatype error =
  ErrNotFound
| ErrNoMethod
| ErrNoActorImpl
| MissingExport MethodNum
| Wrapped string error
| ActorNotFound
| DecodeError string
| StoreError string

text \<open>
  \<^verbatim>\<open>errors.Wrap\<close> and \<^verbatim>\<open>errors.Wrapf\<close> of \<^verbatim>\<open>github.com/pkg/errors\<close> annotate an error
  with a message; both return nil when the error they are given is nil. A Go \<open>error\<close>
  value that may be nil is an \<open>error option\<close>.
\<close>

fun errors_Wrap :: "error option \<Rightarrow> string \<Rightarrow> error option" where
  "errors_Wrap None message = None"
| "errors_Wrap (Some err) message = Some (Wrapped message err)"

fun errors_Wrapf :: "error option \<Rightarrow> string \<Rightarrow> error option" where
  "errors_Wrapf None message = None"
| "errors_Wrapf (Some err) message = Some (Wrapped message err)"

subsection \<open>Actors, state trees and the collaborators\<close>

record Actor =
  actor_Code :: ObjCid
  actor_Head :: ObjCid
  actor_CallSeqNum :: "64 word"
  actor_Balance :: int

text \<open>
  Modelled from the spec: \<^verbatim>\<open>actor.Actor.Empty\<close> (package \<^verbatim>\<open>internal/pkg/vm/actor\<close>, not
  under src/). An empty actor is one that has no code: "an address that received value
  but was never upgraded to a concrete actor type".
\<close>

definition Actor_Empty :: "Actor \<Rightarrow> bool" where
  "Actor_Empty a = (\<not> Cid_Defined (actor_Code a))"

text \<open>
  \<^verbatim>\<open>vmstate.Tree.GetActor(ctx, addr)\<close> returns \<open>(actor, found, err)\<close>. The callers test
  \<open>err\<close> first and \<open>found\<close> second, so a tree is a function to \<open>Inl err\<close>, to \<open>Inr None\<close>
  (no error, not found) or to \<open>Inr (Some actor)\<close>.
\<close>

type_synonym Tree = "Address \<Rightarrow> error + Actor option"

text \<open>
  The interface \<^verbatim>\<open>chainReadWriter\<close>: the current head, the tipsets and the state trees
  by key. Its implementation is not under src/; \<open>rw_setHeadError\<close> is the failure (if
  any) of its \<^verbatim>\<open>SetHead\<close> on a tipset.
\<close>

record chainReadWriter =
  rw_head :: TipSetKey
  rw_tipSets :: "TipSetKey \<Rightarrow> error + TipSet"
  rw_tipSetStates :: "TipSetKey \<Rightarrow> error + Tree"
  rw_setHeadError :: "TipSet \<Rightarrow> error option"

type_synonym ActorMethodSignature = string

text \<open>
  The fields of \<^verbatim>\<open>ChainStateReadWriter\<close> that the functions below read: the chain
  reader and writer, the block store (\<^verbatim>\<open>Get\<close> by CID) and the actor code loader
  (\<^verbatim>\<open>GetActorImpl\<close> by code CID, giving an executable whose \<^verbatim>\<open>Signature\<close> is looked up
  by method number).
\<close>

type_synonym Blockstore = "ObjCid \<Rightarrow> error + byte list"

record ChainStateReadWriter =
  readWriter :: chainReadWriter
  bstore :: Blockstore
  actors :: "ObjCid \<Rightarrow> error + (MethodNum \<Rightarrow> error + ActorMethodSignature)"

text \<open>Every call of a collaborator is recorded, in order, in a list of accesses.\<close>

datatype access =
  GetHead
| GetTipSetState TipSetKey
| TreeGetActor Address
| BstoreGet ObjCid
| Decode "byte list"
| AddressMapGet Address
| GetActorImpl ObjCid
| Signature MethodNum

text \<open>
  The state of the init actor (\<^verbatim>\<open>initactor.State\<close> of specs-actors). Its address map is
  a HAMT read through the store handed to \<^verbatim>\<open>ResolveAddress\<close>; here it is the lookup
  function that HAMT and store give together.
\<close>

record InitState =
  AddressMap :: "Address \<Rightarrow> error + 64 word option"
  NextID :: "64 word"

text \<open>
  Modelled from the spec: \<^verbatim>\<open>initactor.State.ResolveAddress\<close> (specs-actors, not under
  src/). "If address is already in canonical identifier form, the lookup is a fast-path
  identity (no registry access)"; otherwise "query the address to identifier mapping for
  address", with the failure \<open>ActorNotFound\<close> when "no mapping exists".
\<close>

definition State_ResolveAddress :: "InitState \<Rightarrow> Address \<Rightarrow> (Address \<times> error option) \<times> access list" where
  "State_ResolveAddress state addr =
     (if Protocol_of addr = ID then ((addr, None), [])
      else
        (case AddressMap state addr of
           Inl err \<Rightarrow> ((Undef, Some err), [AddressMapGet addr])
         | Inr None \<Rightarrow> ((Undef, Some ActorNotFound), [AddressMapGet addr])
         | Inr (Some n) \<Rightarrow> ((IDAddr n, None), [AddressMapGet addr])))"

subsection \<open>Reading the chain state\<close>

definition Head :: "ChainStateReadWriter \<Rightarrow> TipSetKey" where
  "Head chn = rw_head (readWriter chn)"

text \<open>
  \<^verbatim>\<open>ResolveAddressAt\<close> returns the pair \<open>(address, error)\<close> of the Go function and the
  accesses it made. \<open>decode\<close> is \<^verbatim>\<open>encoding.Decode\<close> into an \<^verbatim>\<open>initactor.State\<close>. In the
  branch \<open>!found\<close> the variable \<open>err\<close> is nil (the branch \<open>err != nil\<close> has returned), and
  that nil is what \<^verbatim>\<open>errors.Wrapf\<close> is given.
\<close>

definition ResolveAddressAt ::
  "(byte list \<Rightarrow> error + InitState) \<Rightarrow> ChainStateReadWriter \<Rightarrow> TipSetKey \<Rightarrow> Address
     \<Rightarrow> (Address \<times> error option) \<times> access list" where
  "ResolveAddressAt decode chn tipKey addr =
     (case rw_tipSetStates (readWriter chn) tipKey of
        Inl err \<Rightarrow>
          ((Undef, errors_Wrap (Some err) ''failed to load latest state''),
           [GetTipSetState tipKey])
      | Inr st \<Rightarrow>
          (case st InitActorAddr of
             Inl err \<Rightarrow>
               ((Undef, Some err), [GetTipSetState tipKey, TreeGetActor InitActorAddr])
           | Inr None \<Rightarrow>
               ((Undef, errors_Wrapf None ''no actor at address''),
                [GetTipSetState tipKey, TreeGetActor InitActorAddr])
           | Inr (Some init) \<Rightarrow>
               (case bstore chn (actor_Head init) of
                  Inl err \<Rightarrow>
                    ((Undef, Some err),
                     [GetTipSetState tipKey, TreeGetActor InitActorAddr,
                      BstoreGet (actor_Head init)])
                | Inr blk \<Rightarrow>
                    (case decode blk of
                       Inl err \<Rightarrow>
                         ((Undef, Some err),
                          [GetTipSetState tipKey, TreeGetActor InitActorAddr,
                           BstoreGet (actor_Head init), Decode blk])
                     | Inr state \<Rightarrow>
                         (case State_ResolveAddress state addr of
                            (r, l) \<Rightarrow>
                              (r, [GetTipSetState tipKey, TreeGetActor InitActorAddr,
                                   BstoreGet (actor_Head init), Decode blk] @ l))))))"

text \<open>
  \<^verbatim>\<open>GetActorAt\<close>: every return is either \<open>(nil, err)\<close> with a non-nil error or
  \<open>(actr, nil)\<close>, hence the sum. \<^verbatim>\<open>errors.Wrap\<close> is called on a non-nil error here.
\<close>

definition GetActorAt ::
  "(byte list \<Rightarrow> error + InitState) \<Rightarrow> ChainStateReadWriter \<Rightarrow> TipSetKey \<Rightarrow> Address
     \<Rightarrow> (error + Actor) \<times> access list" where
  "GetActorAt decode chn tipKey addr =
     (case rw_tipSetStates (readWriter chn) tipKey of
        Inl err \<Rightarrow>
          (Inl (Wrapped ''failed to load latest state'' err), [GetTipSetState tipKey])
      | Inr st \<Rightarrow>
          (case ResolveAddressAt decode chn tipKey addr of
             ((idAddr, Some err), l) \<Rightarrow> (Inl err, GetTipSetState tipKey # l)
           | ((idAddr, None), l) \<Rightarrow>
               (case st idAddr of
                  Inl err \<Rightarrow> (Inl err, GetTipSetState tipKey # l @ [TreeGetActor idAddr])
                | Inr None \<Rightarrow>
                    (Inl ErrNotFound, GetTipSetState tipKey # l @ [TreeGetActor idAddr])
                | Inr (Some actr) \<Rightarrow>
                    (Inr actr, GetTipSetState tipKey # l @ [TreeGetActor idAddr]))))"

definition GetActor ::
  "(byte list \<Rightarrow> error + InitState) \<Rightarrow> ChainStateReadWriter \<Rightarrow> Address
     \<Rightarrow> (error + Actor) \<times> access list" where
  "GetActor decode chn addr =
     (case GetActorAt decode chn (rw_head (readWriter chn)) addr of
        (r, l) \<Rightarrow> (r, GetHead # l))"

definition GetActorSignature ::
  "(byte list \<Rightarrow> error + InitState) \<Rightarrow> ChainStateReadWriter \<Rightarrow> Address \<Rightarrow> MethodNum
     \<Rightarrow> (error + ActorMethodSignature) \<times> access list" where
  "GetActorSignature decode chn actorAddr method =
     (if method = MethodSend then (Inl ErrNoMethod, [])
      else
        (case GetActor decode chn actorAddr of
           (Inl err, l) \<Rightarrow> (Inl (Wrapped ''failed to get actor'' err), l)
         | (Inr actor, l) \<Rightarrow>
             if Actor_Empty actor then (Inl ErrNoActorImpl, l)
             else
               (case actors chn (actor_Code actor) of
                  Inl err \<Rightarrow>
                    (Inl (Wrapped ''failed to load actor code'' err),
                     l @ [GetActorImpl (actor_Code actor)])
                | Inr executable \<Rightarrow>
                    (case executable method of
                       Inl err \<Rightarrow>
                         (Inl (MissingExport method),
                          l @ [GetActorImpl (actor_Code actor), Signature method])
                     | Inr signature \<Rightarrow>
                         (Inr signature,
                          l @ [GetActorImpl (actor_Code actor), Signature method])))))"

subsection \<open>Writing the head, importing a chain\<close>

text \<open>
  Modelled from the spec: \<^verbatim>\<open>chainReadWriter.SetHead\<close> (an interface method, its
  implementation is not under src/). "Either a SetHead fully succeeds (new key readable
  by subsequent Head calls) or it fails leaving the prior head intact."
\<close>

definition rw_SetHead :: "chainReadWriter \<Rightarrow> TipSet \<Rightarrow> error option \<times> chainReadWriter" where
  "rw_SetHead rw ts' =
     (case rw_setHeadError rw ts' of
        Some err \<Rightarrow> (Some err, rw)
      | None \<Rightarrow> (None, rw\<lparr>rw_head := ts_key ts'\<rparr>))"

definition SetHead :: "ChainStateReadWriter \<Rightarrow> TipSetKey \<Rightarrow> error option \<times> ChainStateReadWriter" where
  "SetHead chn key =
     (case rw_tipSets (readWriter chn) key of
        Inl err \<Rightarrow> (Some err, chn)
      | Inr headTs \<Rightarrow>
          (case rw_SetHead (readWriter chn) headTs of
             (e, rw') \<Rightarrow> (e, chn\<lparr>readWriter := rw'\<rparr>)))"

text \<open>
  \<^verbatim>\<open>carStore\<close> wraps the block store and offers \<^verbatim>\<open>Put\<close> alone. \<^verbatim>\<open>chain.Import\<close> is not
  under src/: it is the parameter \<open>chain_Import\<close>, which is handed the car store and the
  input and returns the head key, the error and the car store after its writes. The car
  store shares the block store of the facade, so the writes are visible there.
\<close>

record carStore =
  cs_store :: Blockstore

definition newCarStore :: "Blockstore \<Rightarrow> carStore" where
  "newCarStore bs = \<lparr>cs_store = bs\<rparr>"

definition ChainImport ::
  "(carStore \<Rightarrow> byte list \<Rightarrow> (TipSetKey \<times> error option) \<times> carStore)
     \<Rightarrow> ChainStateReadWriter \<Rightarrow> byte list
     \<Rightarrow> (TipSetKey \<times> error option) \<times> ChainStateReadWriter" where
  "ChainImport chain_Import chn inp =
     (case chain_Import (newCarStore (bstore chn)) inp of
        ((headKey, Some err), cs) \<Rightarrow>
          ((UndefTipSetKey, Some err), chn\<lparr>bstore := cs_store cs\<rparr>)
      | ((headKey, None), cs) \<Rightarrow>
          ((headKey, None), chn\<lparr>bstore := cs_store cs\<rparr>))"

section \<open>Concrete inputs\<close>

text \<open>
  \<open>mkCid c d\<close> is the version 1 CID of codec \<open>c\<close> whose multihash is the identity hash of
  the single byte \<open>d\<close> (code \<open>0\<close>, length \<open>1\<close>, digest \<open>d\<close>). The codecs used below are
  \<open>81\<close> (cbor), \<open>85\<close> (raw) and \<open>113\<close> (dag-cbor).
\<close>

definition mkCid :: "64 word \<Rightarrow> byte \<Rightarrow> Cid" where
  "mkCid c d = \<lparr>version = 1, codec = c, hash = [0, 1, d]\<rparr>"

text \<open>
  A chain of one tipset. Its state tree holds the init actor at its address, an actor
  without code at ID address 102 and an actor with code at ID address 103; the init
  actor's state maps one BLS address to the identifier 101, for which the tree has no
  actor yet. The code of the actor at 103 exports method 1 only.
\<close>

definition ex_key :: TipSetKey where
  "ex_key = [[1]]"

definition ex_initActor :: Actor where
  "ex_initActor =
     \<lparr>actor_Code = [2], actor_Head = [3], actor_CallSeqNum = 0, actor_Balance = 0\<rparr>"

definition ex_emptyActor :: Actor where
  "ex_emptyActor =
     \<lparr>actor_Code = [], actor_Head = [], actor_CallSeqNum = 0, actor_Balance = 5\<rparr>"

definition ex_codeActor :: Actor where
  "ex_codeActor =
     \<lparr>actor_Code = [9], actor_Head = [8], actor_CallSeqNum = 0, actor_Balance = 0\<rparr>"

definition ex_initState :: InitState where
  "ex_initState =
     \<lparr>AddressMap = (\<lambda>a. if a = BLSAddr [7] then Inr (Some 101) else Inr None),
      NextID = 104\<rparr>"

definition ex_decode :: "byte list \<Rightarrow> error + InitState" where
  "ex_decode b =
     (if b = [4] then Inr ex_initState else Inl (DecodeError ''not an init state''))"

definition ex_tree :: Tree where
  "ex_tree a =
     (if a = InitActorAddr then Inr (Some ex_initActor)
      else if a = IDAddr 102 then Inr (Some ex_emptyActor)
      else if a = IDAddr 103 then Inr (Some ex_codeActor)
      else Inr None)"

text \<open>A state tree that holds no actor at all, so none at the init actor's address.\<close>

definition ex_noInitTree :: Tree where
  "ex_noInitTree a = Inr None"

definition ex_executable :: "MethodNum \<Rightarrow> error + ActorMethodSignature" where
  "ex_executable m =
     (if m = 1 then Inr ''constructor'' else Inl (StoreError ''no such method''))"

definition ex_chain :: "Tree \<Rightarrow> ChainStateReadWriter" where
  "ex_chain tree =
     \<lparr>readWriter =
        \<lparr>rw_head = ex_key,
         rw_tipSets =
           (\<lambda>k. if k = ex_key then Inr \<lparr>ts_key = ex_key, ts_height = 0\<rparr> else Inl ErrNotFound),
         rw_tipSetStates = (\<lambda>k. if k = ex_key then Inr tree else Inl ErrNotFound),
         rw_setHeadError = (\<lambda>t. None)\<rparr>,
      bstore = (\<lambda>c. if c = [3] then Inr [4] else Inl ErrNotFound),
      actors = (\<lambda>c. if c = [9] then Inr ex_executable else Inl (StoreError ''no such code''))\<rparr>"

section \<open>Properties of the sorted CID set\<close>

lemmas set_eval =
  Add_def Remove_def Has_def search_def sort_Search_def sort_Search_loop.simps Let_def
  copy_slice_def Cid_Equals_def cidLess_def mkCid_def NewSortedCidSet_def

lemma Cid_Equals_iff: "Cid_Equals a b \<longleftrightarrow> a = b"
  by (auto simp: Cid_Equals_def)

subsection \<open>What \<open>Equals\<close> computes\<close>

lemma Equals_loop_fixed:
  "i \<le> n \<Longrightarrow> Value i1 = Some (Some a) \<Longrightarrow> Value i2 = Some (Some b) \<Longrightarrow>
     Equals_loop i1 i2 n i = Some (i = n \<or> a = b)"
proof (induction i1 i2 n i rule: Equals_loop.induct)
  case (1 i1 i2 n i)
  show ?case
  proof (cases "i < n")
    case True
    with 1 show ?thesis
      by (subst Equals_loop.simps) (auto simp: Cid_Equals_iff)
  next
    case False
    with 1 show ?thesis
      by (subst Equals_loop.simps) simp
  qed
qed

lemma Equals_first_only:
  "Equals s s2 = Some (length s = length s2 \<and> (s = [] \<or> hd s = hd s2))"
proof (cases "length s = length s2")
  case False
  then show ?thesis by (simp add: Equals_def Len_def)
next
  case len: True
  show ?thesis
  proof (cases s)
    case Nil
    with len show ?thesis
      by (simp add: Equals_def Len_def Equals_loop.simps)
  next
    case (Cons a as)
    with len obtain b bs where s2: "s2 = b # bs"
      by (cases s2) auto
    have "Equals_loop (Iter s) (Iter s2) (length s) 0 = Some (0 = length s \<or> a = b)"
      by (rule Equals_loop_fixed) (simp_all add: Iter_def Value_def Cons s2)
    with len Cons s2 show ?thesis
      by (simp add: Equals_def Len_def)
  qed
qed

subsection \<open>The binary search and the model of \<open>Add\<close> and \<open>Remove\<close>\<close>

text \<open>
  Whatever the predicate, \<^verbatim>\<open>sort.Search\<close> returns an index in \<open>[0, n]\<close> with the
  predicate false just below it and true at it. For \<open>search\<close> this means: the element
  before the index is \<open>cidLess\<close> than the CID, the element at the index is not.
\<close>

lemma sort_Search_loop_between:
  "i \<le> j \<Longrightarrow> i \<le> sort_Search_loop f i j \<and> sort_Search_loop f i j \<le> j"
proof (induction f i j rule: sort_Search_loop.induct)
  case (1 f i j)
  show ?case
  proof (cases "i < j")
    case False
    with 1 show ?thesis by (subst (1 2) sort_Search_loop.simps) simp
  next
    case True
    then have h: "i \<le> (i + j) div 2" "(i + j) div 2 < j" by auto
    show ?thesis
    proof (cases "f ((i + j) div 2)")
      case True
      with 1(2)[OF \<open>i < j\<close> refl] \<open>i < j\<close> h show ?thesis
        by (subst (1 2) sort_Search_loop.simps) (simp add: Let_def)
    next
      case False
      with 1(1)[OF \<open>i < j\<close> refl] \<open>i < j\<close> h show ?thesis
        by (subst (1 2) sort_Search_loop.simps) (simp add: Let_def)
    qed
  qed
qed

lemma sort_Search_loop_boundary:
  "i \<le> j \<Longrightarrow> (0 < i \<Longrightarrow> \<not> f (i - 1)) \<Longrightarrow> (j < n \<Longrightarrow> f j) \<Longrightarrow>
     (0 < sort_Search_loop f i j \<longrightarrow> \<not> f (sort_Search_loop f i j - 1)) \<and>
     (sort_Search_loop f i j < n \<longrightarrow> f (sort_Search_loop f i j))"
proof (induction f i j rule: sort_Search_loop.induct)
  case (1 f i j)
  show ?case
  proof (cases "i < j")
    case False
    with 1(3) have "i = j" by simp
    with 1(4,5) show ?thesis by (subst (1 2 3 4) sort_Search_loop.simps) auto
  next
    case True
    then have h: "i \<le> (i + j) div 2" "(i + j) div 2 < j" by auto
    show ?thesis
    proof (cases "f ((i + j) div 2)")
      case fh: True
      have "(0 < sort_Search_loop f i ((i + j) div 2) \<longrightarrow> \<not> f (sort_Search_loop f i ((i + j) div 2) - 1)) \<and>
     (sort_Search_loop f i ((i + j) div 2) < n \<longrightarrow> f (sort_Search_loop f i ((i + j) div 2)))"
        using 1(2)[OF True refl] fh h 1(4) by simp
      moreover have "sort_Search_loop f i j = sort_Search_loop f i ((i + j) div 2)"
        using True fh by (subst sort_Search_loop.simps) (simp add: Let_def)
      ultimately show ?thesis by simp
    next
      case fh: False
      have "(0 < sort_Search_loop f ((i + j) div 2 + 1) j \<longrightarrow> \<not> f (sort_Search_loop f ((i + j) div 2 + 1) j - 1)) \<and>
     (sort_Search_loop f ((i + j) div 2 + 1) j < n \<longrightarrow> f (sort_Search_loop f ((i + j) div 2 + 1) j))"
        using 1(1)[OF True refl] fh h 1(5) by simp
      moreover have "sort_Search_loop f i j = sort_Search_loop f ((i + j) div 2 + 1) j"
        using True fh by (subst sort_Search_loop.simps) (simp add: Let_def)
      ultimately show ?thesis by simp
    qed
  qed
qed

lemma search_le: "search s c \<le> length s"
  using sort_Search_loop_between [of 0 "length s"] by (simp add: search_def sort_Search_def)

lemma search_pred: "0 < search s c \<Longrightarrow> cidLess (s ! (search s c - 1)) c"
  using sort_Search_loop_boundary [of 0 "length s" "\<lambda>i. \<not> cidLess (s ! i) c" "length s"]
  by (simp add: search_def sort_Search_def)

lemma search_succ: "search s c < length s \<Longrightarrow> \<not> cidLess (s ! search s c) c"
  using sort_Search_loop_boundary [of 0 "length s" "\<lambda>i. \<not> cidLess (s ! i) c" "length s"]
  by (simp add: search_def sort_Search_def)

text \<open>Two distinct CIDs are ordered by \<open>cidLess\<close> in at least one direction.\<close>

lemma bytes_Compare_total: "\<not> bytes_Compare xs ys < 0 \<Longrightarrow> xs \<noteq> ys \<Longrightarrow> bytes_Compare ys xs < 0"
  by (induction xs ys rule: bytes_Compare.induct) (auto split: if_splits)

lemma cidLess_total: "\<not> cidLess a b \<Longrightarrow> a \<noteq> b \<Longrightarrow> cidLess b a"
proof -
  assume n: "\<not> cidLess a b" and d: "a \<noteq> b"
  from n have v: "version b \<le> version a" and c: "codec b \<le> codec a" and h: "\<not> bytes_Compare (hash a) (hash b) < 0"
    by (auto simp: cidLess_def not_less)
  show ?thesis
  proof (cases "version a = version b \<and> codec a = codec b")
    case True
    with d have "hash a \<noteq> hash b" by (cases a, cases b) auto
    with h have "bytes_Compare (hash b) (hash a) < 0" by (rule bytes_Compare_total)
    then show ?thesis by (simp add: cidLess_def)
  next
    case False
    with v c show ?thesis by (auto simp: cidLess_def)
  qed
qed

text \<open>
  The append, copy and assignment of \<open>Add\<close> insert the CID at the index; the copy and
  reslice of \<open>Remove\<close> delete the element at the index.
\<close>

lemma insert_by_copy:
  assumes "idx \<le> length s"
  shows "(copy_slice (s @ [c]) (idx + 1) idx)[idx := c] = take idx s @ c # drop idx s"
proof (cases "idx = length s")
  case True
  then show ?thesis by (simp add: copy_slice_def)
next
  case False
  with assms have lt: "idx < length s" by simp
  then have m: "min (length s - idx) (Suc (length s) - idx) = length s - idx"
    by arith
  from lt have "copy_slice (s @ [c]) (idx + 1) idx = take (idx + 1) s @ drop idx s"
    by (simp add: copy_slice_def m)
  also have "take (idx + 1) s = take idx s @ [s ! idx]"
    using lt by (simp add: take_Suc_conv_app_nth)
  finally show ?thesis
    using lt by (simp add: list_update_append)
qed

lemma Add_inserts:
  "Add s c =
     (if Has s c then (s, False)
      else (take (search s c) s @ c # drop (search s c) s, True))"
  using insert_by_copy [OF search_le, of s c c]
  by (simp add: Add_def Has_def Let_def)

lemma remove_by_copy:
  assumes "idx < length s"
  shows "take (length s - 1) (copy_slice s idx (idx + 1)) = take idx s @ drop (idx + 1) s"
proof -
  from assms have m: "min (length s - idx) (length s - (idx + 1)) = length s - (idx + 1)"
    by arith
  have "copy_slice s idx (idx + 1) =
      take idx s @ take (length s - (idx + 1)) (drop (idx + 1) s) @ drop (idx + (length s - (idx + 1))) s"
    unfolding copy_slice_def Let_def m ..
  also have "take (length s - (idx + 1)) (drop (idx + 1) s) = drop (idx + 1) s"
    by simp
  finally have c: "copy_slice s idx (idx + 1) =
      (take idx s @ drop (idx + 1) s) @ drop (idx + (length s - (idx + 1))) s"
    by simp
  have l: "length (take idx s @ drop (idx + 1) s) = length s - 1"
    using assms by simp
  have g: "take n (xs @ ys) = xs" if "length xs = n" for n and xs ys :: "'a list"
    using that by simp
  show ?thesis
    unfolding c by (rule g [OF l])
qed

lemma Remove_deletes:
  "Remove s c =
     (if Has s c then (take (search s c) s @ drop (search s c + 1) s, True) else (s, False))"
  using remove_by_copy [of "search s c" s]
  by (auto simp add: Remove_def Has_def Let_def)

text \<open>
  \<open>Add\<close> keeps every element \<open>cidLess\<close> than its successor. (\<open>Remove\<close> does not, see
  C6 below: \<open>cidLess\<close> is not transitive.)
\<close>

lemma Add_keeps_successively:
  assumes "successively cidLess s"
  shows "successively cidLess (fst (Add s c))"
proof (cases "Has s c")
  case True
  with assms show ?thesis by (simp add: Add_inserts)
next
  case False
  let ?i = "search s c"
  have s: "s = take ?i s @ drop ?i s" by simp
  from assms have a: "successively cidLess (take ?i s)" and b: "successively cidLess (drop ?i s)"
    using successively_append_iff [of cidLess "take ?i s" "drop ?i s"] by simp_all
  have l: "take ?i s \<noteq> [] \<Longrightarrow> cidLess (last (take ?i s)) c"
  proof -
    assume ne: "take ?i s \<noteq> []"
    then have pos: "0 < ?i" by (cases ?i) auto
    from ne have "last (take ?i s) = s ! (?i - 1)"
      using search_le [of s c] by (simp add: last_conv_nth min_def)
    with search_pred [OF pos] show ?thesis by simp
  qed
  have r: "drop ?i s \<noteq> [] \<Longrightarrow> cidLess c (hd (drop ?i s))"
  proof -
    assume ne: "drop ?i s \<noteq> []"
    then have lt: "?i < length s" by simp
    then have hd: "hd (drop ?i s) = s ! ?i" by (simp add: hd_drop_conv_nth)
    from False lt have "s ! ?i \<noteq> c" by (simp add: Has_def Let_def Cid_Equals_iff)
    with search_succ [OF lt] show ?thesis unfolding hd by (rule cidLess_total)
  qed
  have "successively cidLess (take ?i s @ c # drop ?i s)"
    using a b l r by (auto simp: successively_append_iff successively_Cons)
  with False show ?thesis by (simp add: Add_inserts)
qed

text \<open>
  The decoders accept a list exactly when every element is \<open>cidLess\<close> than its
  successor.
\<close>

lemma unsorted_pair_None:
  "unsorted_pair s i = None \<longleftrightarrow> (\<forall>k\<ge>i. Suc k < length s \<longrightarrow> cidLess (s ! k) (s ! Suc k))"
proof (induction s i rule: unsorted_pair.induct)
  case (1 s i)
  show ?case
  proof (cases "Suc i < length s")
    case False
    then show ?thesis by (subst unsorted_pair.simps) auto
  next
    case True
    show ?thesis
    proof (cases "cidLess (s ! i) (s ! Suc i)")
      case False
      with True show ?thesis by (subst unsorted_pair.simps) auto
    next
      case less: True
      have "unsorted_pair s i = unsorted_pair s (i + 1)"
        using True less by (subst unsorted_pair.simps) auto
      also have "\<dots> = None \<longleftrightarrow> (\<forall>k\<ge>i + 1. Suc k < length s \<longrightarrow> cidLess (s ! k) (s ! Suc k))"
        using 1 True less by auto
      also have "\<dots> \<longleftrightarrow> (\<forall>k\<ge>i. Suc k < length s \<longrightarrow> cidLess (s ! k) (s ! Suc k))"
        using less by (metis Suc_eq_plus1 Suc_leI le_neq_implies_less Suc_leD)
      finally show ?thesis .
    qed
  qed
qed

lemma TransformUnmarshal_accepts:
  "TransformUnmarshal s = (if successively cidLess s then Inr s
     else Inl (InvalidSerialization (fst (the (unsorted_pair s 0))) (snd (the (unsorted_pair s 0)))))"
  using unsorted_pair_None [of s 0]
  by (auto simp: TransformUnmarshal_def successively_conv_nth split: option.splits)


lemma TransformUnmarshal_roundtrip:
  "successively cidLess s \<Longrightarrow>
     TransformMarshal s = Inr s \<and> TransformUnmarshal s = Inr s \<and> Equals s s = Some True"
  by (simp add: TransformMarshal_def TransformUnmarshal_accepts Equals_first_only)

lemma Clear_empty: "Clear s = []"
  by (simp add: Clear_def)

subsection \<open>Equality of sets\<close>

text \<open>
  C1. \<open>Equals\<close> is claimed to return true exactly when the two sets have the same length
  and agree at every position. On the two sets of two CIDs below, which agree at
  position 0 and differ at position 1, \<open>Equals\<close> returns true: the loop never advances
  its iterators, so it compares the first elements only.
\<close>

theorem Equals_ignores_later_positions:
  "Equals [mkCid 85 1, mkCid 85 2] [mkCid 85 1, mkCid 85 3] = Some True \<and>
   length [mkCid 85 1, mkCid 85 2] = length [mkCid 85 1, mkCid 85 3] \<and>
   [mkCid 85 1, mkCid 85 2] ! 1 \<noteq> [mkCid 85 1, mkCid 85 3] ! 1 \<and>
   sorted_wrt cid_lex_less [mkCid 85 1, mkCid 85 2] \<and>
   sorted_wrt cid_lex_less [mkCid 85 1, mkCid 85 3]"
  by (simp add: Equals_def Len_def Iter_def Value_def Equals_loop.simps Cid_Equals_def
      mkCid_def cid_lex_less_def)

subsection \<open>The comparison \<open>cidLess\<close>\<close>

text \<open>
  C3. \<open>cidLess\<close> is claimed to be a strict total order that coincides with the
  lexicographic order on (version, codec, hash). It is neither: for the two distinct CIDs
  \<open>mkCid 113 2\<close> and \<open>mkCid 81 3\<close> it holds in both directions (the hash decides one way,
  the codec the other) while the lexicographic order puts \<open>mkCid 81 3\<close> first; and it is
  not transitive along \<open>mkCid 113 2\<close>, \<open>mkCid 81 3\<close>, \<open>mkCid 85 1\<close>.
\<close>

theorem cidLess_not_a_strict_order:
  "mkCid 113 2 \<noteq> mkCid 81 3 \<and>
   cidLess (mkCid 113 2) (mkCid 81 3) \<and> cidLess (mkCid 81 3) (mkCid 113 2) \<and>
   \<not> cid_lex_less (mkCid 113 2) (mkCid 81 3) \<and> cid_lex_less (mkCid 81 3) (mkCid 113 2) \<and>
   cidLess (mkCid 81 3) (mkCid 85 1) \<and> \<not> cidLess (mkCid 113 2) (mkCid 85 1)"
  by (simp add: cidLess_def cid_lex_less_def mkCid_def)

subsection \<open>Decoding\<close>

text \<open>
  C5. Decoding is claimed to fail exactly on lists that are not strictly increasing, and
  every set is claimed to survive encoding and decoding. The set built by adding
  \<open>mkCid 113 2\<close>, \<open>mkCid 81 3\<close>, \<open>mkCid 85 1\<close> and removing \<open>mkCid 81 3\<close> is
  \<open>[mkCid 113 2, mkCid 85 1]\<close>; its encoding is that list, and both decoders reject it.
  In the other direction the CBOR decoder accepts \<open>[mkCid 113 2, mkCid 81 3]\<close>, which
  is not increasing in the lexicographic CID order.
\<close>

theorem decode_rejects_a_reachable_set:
  "Remove (NewSortedCidSet [mkCid 113 2, mkCid 81 3, mkCid 85 1]) (mkCid 81 3) =
     ([mkCid 113 2, mkCid 85 1], True) \<and>
   TransformMarshal [mkCid 113 2, mkCid 85 1] = Inr [mkCid 113 2, mkCid 85 1] \<and>
   TransformUnmarshal [mkCid 113 2, mkCid 85 1] =
     Inl (InvalidSerialization (mkCid 113 2) (mkCid 85 1)) \<and>
   UnmarshalJSON (\<lambda>b. Inr [mkCid 113 2, mkCid 85 1]) [] [] = (Some CidsNotSorted, []) \<and>
   TransformUnmarshal [mkCid 113 2, mkCid 81 3] = Inr [mkCid 113 2, mkCid 81 3] \<and>
   \<not> cid_lex_less (mkCid 113 2) (mkCid 81 3)"
  by (simp add: set_eval TransformMarshal_def TransformUnmarshal_def UnmarshalJSON_def
      unsorted_pair.simps cid_lex_less_def)

subsection \<open>Sortedness under mutation\<close>

text \<open>
  C6. Every mutation is claimed to keep the elements strictly increasing, so that
  iteration is in strict ascending order. The list \<open>[mkCid 113 2, mkCid 81 3, mkCid 85 1]\<close>
  is what adding its elements in this order builds and what iteration yields; each
  element is \<open>cidLess\<close> than the next, yet the list is increasing neither pairwise under
  \<open>cidLess\<close> nor in the lexicographic order, and removing its middle element leaves
  \<open>[mkCid 113 2, mkCid 85 1]\<close>, whose two elements \<open>cidLess\<close> does not order.
\<close>

theorem mutation_breaks_sortedness:
  "NewSortedCidSet [mkCid 113 2, mkCid 81 3, mkCid 85 1] =
     [mkCid 113 2, mkCid 81 3, mkCid 85 1] \<and>
   ToSlice [mkCid 113 2, mkCid 81 3, mkCid 85 1] =
     Some [mkCid 113 2, mkCid 81 3, mkCid 85 1] \<and>
   successively cidLess [mkCid 113 2, mkCid 81 3, mkCid 85 1] \<and>
   \<not> sorted_wrt cidLess [mkCid 113 2, mkCid 81 3, mkCid 85 1] \<and>
   \<not> sorted_wrt cid_lex_less [mkCid 113 2, mkCid 81 3, mkCid 85 1] \<and>
   Remove [mkCid 113 2, mkCid 81 3, mkCid 85 1] (mkCid 81 3) =
     ([mkCid 113 2, mkCid 85 1], True) \<and>
   \<not> successively cidLess [mkCid 113 2, mkCid 85 1]"
  by (simp add: set_eval ToSlice_def ToSlice_loop.simps Iter_def Complete_def Value_def
      Next_def cid_lex_less_def)

subsection \<open>Adding an element\<close>

text \<open>
  C7. \<open>Add\<close> of a member is claimed to return false and change nothing, and \<open>Add\<close> of
  a non-member to return true and make \<open>Has\<close> hold. The set built by adding
  \<open>mkCid 113 2\<close> and \<open>mkCid 81 3\<close> holds \<open>mkCid 113 2\<close>, yet \<open>Has\<close> does not find it and
  adding it again returns true and stores it a second time. And on the set built from
  five CIDs below, \<open>Has (mkCid 113 0)\<close> is false before \<open>Add (mkCid 113 0)\<close>, which
  returns true, and still false after it.
\<close>

theorem Add_duplicates_a_member:
  "NewSortedCidSet [mkCid 113 2, mkCid 81 3] = [mkCid 113 2, mkCid 81 3] \<and>
   mkCid 113 2 \<in> set [mkCid 113 2, mkCid 81 3] \<and>
   \<not> Has [mkCid 113 2, mkCid 81 3] (mkCid 113 2) \<and>
   Add [mkCid 113 2, mkCid 81 3] (mkCid 113 2) =
     ([mkCid 113 2, mkCid 81 3, mkCid 113 2], True) \<and>
   NewSortedCidSet [mkCid 85 0, mkCid 85 1, mkCid 85 2, mkCid 113 1, mkCid 85 3] =
     [mkCid 85 0, mkCid 85 1, mkCid 85 2, mkCid 113 1, mkCid 85 3] \<and>
   \<not> Has [mkCid 85 0, mkCid 85 1, mkCid 85 2, mkCid 113 1, mkCid 85 3] (mkCid 113 0) \<and>
   Add [mkCid 85 0, mkCid 85 1, mkCid 85 2, mkCid 113 1, mkCid 85 3] (mkCid 113 0) =
     ([mkCid 85 0, mkCid 85 1, mkCid 85 2, mkCid 113 1, mkCid 85 3, mkCid 113 0], True) \<and>
   \<not> Has [mkCid 85 0, mkCid 85 1, mkCid 85 2, mkCid 113 1, mkCid 85 3, mkCid 113 0]
       (mkCid 113 0)"
  by (simp add: set_eval)

section \<open>Properties of the chain state facade\<close>

lemmas chain_eval =
  ex_chain_def ex_key_def ex_tree_def ex_noInitTree_def ex_decode_def ex_initState_def
  ex_initActor_def ex_emptyActor_def ex_codeActor_def ex_executable_def InitActorAddr_def
  ResolveAddressAt_def State_ResolveAddress_def GetActorAt_def GetActor_def
  GetActorSignature_def MethodSend_def Actor_Empty_def Cid_Defined_def

subsection \<open>Resolving an address\<close>

lemma ResolveAddressAt_no_init_actor:
  "rw_tipSetStates (readWriter chn) tipKey = Inr st \<Longrightarrow> st InitActorAddr = Inr None \<Longrightarrow>
     fst (ResolveAddressAt decode chn tipKey addr) = (Undef, None)"
  by (simp add: ResolveAddressAt_def)

text \<open>
  C2. When the state tree of the key holds no actor at the init actor's address,
  \<open>ResolveAddressAt\<close> is claimed to return a non-nil error with the undefined address.
  On such a tree it returns the undefined address with a nil error: the error it wraps
  in that branch is nil, and wrapping nil gives nil.
\<close>

theorem ResolveAddressAt_no_init_actor_nil_error:
  "rw_tipSetStates (readWriter (ex_chain ex_noInitTree)) ex_key = Inr ex_noInitTree \<and>
   ex_noInitTree InitActorAddr = Inr None \<and>
   ResolveAddressAt ex_decode (ex_chain ex_noInitTree) ex_key (BLSAddr [7]) =
     ((Undef, None), [GetTipSetState ex_key, TreeGetActor InitActorAddr])"
  by (simp add: ResolveAddressAt_def ex_chain_def ex_noInitTree_def)

text \<open>
  C4, as stated: for an address in identifier form \<open>ResolveAddressAt\<close> returns the
  address and reads neither the init actor nor its state. On the example chain the tree
  is asked for the init actor and the block store for its state; and for a key whose
  state does not load the address is not returned.
\<close>

theorem ResolveAddressAt_ID_reads_registry:
  "Protocol_of (IDAddr 100) = ID \<and>
   TreeGetActor InitActorAddr \<in>
     set (snd (ResolveAddressAt ex_decode (ex_chain ex_tree) ex_key (IDAddr 100))) \<and>
   BstoreGet (actor_Head ex_initActor) \<in>
     set (snd (ResolveAddressAt ex_decode (ex_chain ex_tree) ex_key (IDAddr 100))) \<and>
   fst (ResolveAddressAt ex_decode (ex_chain ex_tree) [] (IDAddr 100)) \<noteq> (IDAddr 100, None)"
  by (simp add: chain_eval)

text \<open>
  C4, amended: for an address in identifier form, \<open>ResolveAddressAt\<close> loads the state
  tree of the key, looks the init actor up in it, gets the actor's head state from the
  block store and decodes it; when these four steps succeed it returns the address
  unchanged with a nil error, and these four are all its accesses (the address map is
  not queried).
\<close>

theorem ResolveAddressAt_ID_identity:
  assumes "Protocol_of addr = ID"
    and "rw_tipSetStates (readWriter chn) tipKey = Inr st"
    and "st InitActorAddr = Inr (Some init)"
    and "bstore chn (actor_Head init) = Inr blk"
    and "decode blk = Inr state"
  shows "ResolveAddressAt decode chn tipKey addr =
     ((addr, None),
      [GetTipSetState tipKey, TreeGetActor InitActorAddr, BstoreGet (actor_Head init),
       Decode blk])"
  using assms by (simp add: ResolveAddressAt_def State_ResolveAddress_def)

theorem ResolveAddressAt_ID_identity_witness:
  "Protocol_of (IDAddr 100) = ID \<and>
   rw_tipSetStates (readWriter (ex_chain ex_tree)) ex_key = Inr ex_tree \<and>
   ex_tree InitActorAddr = Inr (Some ex_initActor) \<and>
   bstore (ex_chain ex_tree) (actor_Head ex_initActor) = Inr [4] \<and>
   ex_decode [4] = Inr ex_initState \<and>
   ResolveAddressAt ex_decode (ex_chain ex_tree) ex_key (IDAddr 100) =
     ((IDAddr 100, None),
      [GetTipSetState ex_key, TreeGetActor InitActorAddr, BstoreGet (actor_Head ex_initActor),
       Decode [4]])"
proof -
  have 1: "Protocol_of (IDAddr 100) = ID"
    by simp
  have 2: "rw_tipSetStates (readWriter (ex_chain ex_tree)) ex_key = Inr ex_tree"
    by (simp add: ex_chain_def)
  have 3: "ex_tree InitActorAddr = Inr (Some ex_initActor)"
    by (simp add: ex_tree_def)
  have 4: "bstore (ex_chain ex_tree) (actor_Head ex_initActor) = Inr [4]"
    by (simp add: ex_chain_def ex_initActor_def)
  have 5: "ex_decode [4] = Inr ex_initState"
    by (simp add: ex_decode_def)
  have "ResolveAddressAt ex_decode (ex_chain ex_tree) ex_key (IDAddr 100) =
     ((IDAddr 100, None),
      [GetTipSetState ex_key, TreeGetActor InitActorAddr, BstoreGet (actor_Head ex_initActor),
       Decode [4]])"
    using 1 2 3 4 5
    by (rule ResolveAddressAt_ID_identity
        [where addr = "IDAddr 100" and chn = "ex_chain ex_tree" and tipKey = ex_key
           and st = ex_tree and init = ex_initActor and blk = "[4]" and decode = ex_decode
           and state = ex_initState])
  with 1 2 3 4 5 show ?thesis
    by simp
qed

subsection \<open>Looking an actor up\<close>

text \<open>
  C9. When \<open>ResolveAddressAt\<close> succeeds with the identifier \<open>idAddr\<close> and the state tree
  of the key has no actor at \<open>idAddr\<close>, \<open>GetActorAt\<close> fails with \<open>ErrNotFound\<close>, which is
  not a decode error.
\<close>

theorem GetActorAt_not_found:
  assumes "fst (ResolveAddressAt decode chn tipKey addr) = (idAddr, None)"
    and "rw_tipSetStates (readWriter chn) tipKey = Inr st"
    and "st idAddr = Inr None"
  shows "fst (GetActorAt decode chn tipKey addr) = Inl ErrNotFound \<and>
     fst (GetActorAt decode chn tipKey addr) \<noteq> Inl (DecodeError message)"
  using assms
  by (cases "ResolveAddressAt decode chn tipKey addr") (simp add: GetActorAt_def)

text \<open>
  The two situations the claim names: the identifier address 100, which no actor has,
  and a BLS address that the init actor maps to the identifier 101, for which the tree
  has no actor yet.
\<close>

theorem GetActorAt_not_found_witness:
  "fst (ResolveAddressAt ex_decode (ex_chain ex_tree) ex_key (IDAddr 100)) = (IDAddr 100, None) \<and>
   rw_tipSetStates (readWriter (ex_chain ex_tree)) ex_key = Inr ex_tree \<and>
   ex_tree (IDAddr 100) = Inr None \<and>
   fst (GetActorAt ex_decode (ex_chain ex_tree) ex_key (IDAddr 100)) = Inl ErrNotFound \<and>
   fst (ResolveAddressAt ex_decode (ex_chain ex_tree) ex_key (BLSAddr [7])) = (IDAddr 101, None) \<and>
   ex_tree (IDAddr 101) = Inr None \<and>
   fst (GetActorAt ex_decode (ex_chain ex_tree) ex_key (BLSAddr [7])) = Inl ErrNotFound"
proof -
  have 1: "fst (ResolveAddressAt ex_decode (ex_chain ex_tree) ex_key (IDAddr 100)) =
      (IDAddr 100, None)"
    by (simp add: chain_eval)
  have 2: "rw_tipSetStates (readWriter (ex_chain ex_tree)) ex_key = Inr ex_tree"
    by (simp add: ex_chain_def)
  have 3: "ex_tree (IDAddr 100) = Inr None"
    by (simp add: ex_tree_def InitActorAddr_def)
  have 4: "fst (ResolveAddressAt ex_decode (ex_chain ex_tree) ex_key (BLSAddr [7])) =
      (IDAddr 101, None)"
    by (simp add: chain_eval)
  have 5: "ex_tree (IDAddr 101) = Inr None"
    by (simp add: ex_tree_def InitActorAddr_def)
  from GetActorAt_not_found [OF 1 2 3] GetActorAt_not_found [OF 4 2 5] 1 2 3 4 5
  show ?thesis
    by simp
qed

subsection \<open>The signature of an actor's method\<close>

text \<open>
  C10. For the method number of a plain value transfer \<open>GetActorSignature\<close> fails with
  \<open>ErrNoMethod\<close> and makes no access at all. For any other method number: if the actor
  at the head is found and has no code it fails with \<open>ErrNoActorImpl\<close>; if the actor's
  code is loaded and does not export the method it fails with the missing-export error.
\<close>

theorem GetActorSignature_failures:
  "GetActorSignature decode chn actorAddr MethodSend = (Inl ErrNoMethod, []) \<and>
   (methodNum \<noteq> MethodSend \<and> fst (GetActor decode chn actorAddr) = Inr actr \<and> Actor_Empty actr
      \<longrightarrow> fst (GetActorSignature decode chn actorAddr methodNum) = Inl ErrNoActorImpl) \<and>
   (methodNum \<noteq> MethodSend \<and> fst (GetActor decode chn actorAddr) = Inr actr \<and>
    \<not> Actor_Empty actr \<and> actors chn (actor_Code actr) = Inr executable \<and>
    executable methodNum = Inl err
      \<longrightarrow> fst (GetActorSignature decode chn actorAddr methodNum) = Inl (MissingExport methodNum))"
  by (cases "GetActor decode chn actorAddr") (auto simp: GetActorSignature_def)

theorem GetActorSignature_failures_witness:
  "GetActorSignature ex_decode (ex_chain ex_tree) (IDAddr 102) MethodSend = (Inl ErrNoMethod, []) \<and>
   (5 :: MethodNum) \<noteq> MethodSend \<and>
   fst (GetActor ex_decode (ex_chain ex_tree) (IDAddr 102)) = Inr ex_emptyActor \<and>
   Actor_Empty ex_emptyActor \<and>
   fst (GetActorSignature ex_decode (ex_chain ex_tree) (IDAddr 102) 5) = Inl ErrNoActorImpl \<and>
   fst (GetActor ex_decode (ex_chain ex_tree) (IDAddr 103)) = Inr ex_codeActor \<and>
   \<not> Actor_Empty ex_codeActor \<and>
   actors (ex_chain ex_tree) (actor_Code ex_codeActor) = Inr ex_executable \<and>
   ex_executable 5 = Inl (StoreError ''no such method'') \<and>
   fst (GetActorSignature ex_decode (ex_chain ex_tree) (IDAddr 103) 5) = Inl (MissingExport 5)"
proof -
  have 1: "(5 :: MethodNum) \<noteq> MethodSend"
    by (simp add: MethodSend_def)
  have 2: "fst (GetActor ex_decode (ex_chain ex_tree) (IDAddr 102)) = Inr ex_emptyActor"
    by (simp add: chain_eval)
  have 3: "Actor_Empty ex_emptyActor"
    by (simp add: Actor_Empty_def Cid_Defined_def ex_emptyActor_def)
  have 4: "fst (GetActor ex_decode (ex_chain ex_tree) (IDAddr 103)) = Inr ex_codeActor"
    by (simp add: chain_eval)
  have 5: "\<not> Actor_Empty ex_codeActor"
    by (simp add: Actor_Empty_def Cid_Defined_def ex_codeActor_def)
  have 6: "actors (ex_chain ex_tree) (actor_Code ex_codeActor) = Inr ex_executable"
    by (simp add: ex_chain_def ex_codeActor_def)
  have 7: "ex_executable 5 = Inl (StoreError ''no such method'')"
    by (simp add: ex_executable_def)
  note a = GetActorSignature_failures
    [where decode = ex_decode and chn = "ex_chain ex_tree" and actorAddr = "IDAddr 102"
       and methodNum = 5 and actr = ex_emptyActor]
  note b = GetActorSignature_failures
    [where decode = ex_decode and chn = "ex_chain ex_tree" and actorAddr = "IDAddr 103"
       and methodNum = 5 and actr = ex_codeActor and executable = ex_executable
       and err = "StoreError ''no such method''"]
  from a b 1 2 3 4 5 6 7 show ?thesis
    by simp
qed

subsection \<open>Importing a chain\<close>

lemma SetHead_switches_head:
  "rw_tipSets (readWriter chn) key = Inr headTs \<Longrightarrow>
   rw_setHeadError (readWriter chn) headTs = None \<Longrightarrow>
   fst (SetHead chn key) = None \<and> Head (snd (SetHead chn key)) = ts_key headTs"
  by (simp add: SetHead_def rw_SetHead_def Head_def)

text \<open>
  C8. \<open>ChainImport\<close> leaves the chain reader and writer as it was, whatever the import
  does with the car store and the input and whether it fails or not: \<open>Head\<close> after the
  import is \<open>Head\<close> before it. (Only \<open>SetHead\<close> writes the head.)
\<close>

theorem ChainImport_keeps_head:
  "readWriter (snd (ChainImport chain_Import chn inp)) = readWriter chn \<and>
   Head (snd (ChainImport chain_Import chn inp)) = Head chn"
  by (auto simp: ChainImport_def Head_def split: prod.splits option.splits)

end
